theory Spec2Isabelle
  imports Complex_Main
begin

section \<open>Python values used by fan.py\<close>

text \<open>
  fan.py is a single-threaded script: it polls OpenHardwareMonitor for the CPU package
  temperature and drives the fan mode of a remote iDRAC through ipmitool. The embedding
  keeps the script's functions and names. What the script gets from outside (the HTTP
  response, the outcome of each ipmitool process, what the builtin \<open>float\<close> returns) is an
  argument of the model; the global variable and the list of started processes are an
  explicit state. Console output and the sleep between two polls are not modelled.

  A Python \<open>str\<close> is a \<open>string\<close> whose characters are the code points below 256.
\<close>

subsection \<open>Strings\<close>

text \<open>The characters \<open>str.isspace\<close> accepts, which \<open>str.strip\<close> and \<open>str.split\<close> remove.\<close>

definition whitespace :: "char list" where
  "whitespace = [CHR 0x09, CHR 0x0A, CHR 0x0B, CHR 0x0C, CHR 0x0D, CHR 0x1C, CHR 0x1D,
                 CHR 0x1E, CHR 0x1F, CHR 0x20, CHR 0x85, CHR 0xA0]"

definition is_space :: "char \<Rightarrow> bool" where
  "is_space c = (c \<in> set whitespace)"

text \<open>\<open>s.strip()\<close>\<close>

definition py_strip :: "string \<Rightarrow> string" where
  "py_strip s = rev (dropWhile is_space (rev (dropWhile is_space s)))"

text \<open>\<open>s.split()\<close>: the maximal runs of characters that are not whitespace.\<close>

fun split_ws :: "string \<Rightarrow> string \<Rightarrow> string list" where
  "split_ws cur [] = (if cur = [] then [] else [cur])"
| "split_ws cur (c # cs) =
     (if is_space c then (if cur = [] then split_ws [] cs else cur # split_ws [] cs)
      else split_ws (cur @ [c]) cs)"

definition py_split :: "string \<Rightarrow> string list" where
  "py_split s = split_ws [] s"

text \<open>\<open>s.lower()\<close>: the letters A to Z and the capital letters of Latin-1.\<close>

definition upper_chars :: "char list" where
  "upper_chars = ''ABCDEFGHIJKLMNOPQRSTUVWXYZ'' @
     [CHR 0xC0, CHR 0xC1, CHR 0xC2, CHR 0xC3, CHR 0xC4, CHR 0xC5, CHR 0xC6, CHR 0xC7,
      CHR 0xC8, CHR 0xC9, CHR 0xCA, CHR 0xCB, CHR 0xCC, CHR 0xCD, CHR 0xCE, CHR 0xCF,
      CHR 0xD0, CHR 0xD1, CHR 0xD2, CHR 0xD3, CHR 0xD4, CHR 0xD5, CHR 0xD6,
      CHR 0xD8, CHR 0xD9, CHR 0xDA, CHR 0xDB, CHR 0xDC, CHR 0xDD, CHR 0xDE]"

definition lower_chars :: "char list" where
  "lower_chars = ''abcdefghijklmnopqrstuvwxyz'' @
     [CHR 0xE0, CHR 0xE1, CHR 0xE2, CHR 0xE3, CHR 0xE4, CHR 0xE5, CHR 0xE6, CHR 0xE7,
      CHR 0xE8, CHR 0xE9, CHR 0xEA, CHR 0xEB, CHR 0xEC, CHR 0xED, CHR 0xEE, CHR 0xEF,
      CHR 0xF0, CHR 0xF1, CHR 0xF2, CHR 0xF3, CHR 0xF4, CHR 0xF5, CHR 0xF6,
      CHR 0xF8, CHR 0xF9, CHR 0xFA, CHR 0xFB, CHR 0xFC, CHR 0xFD, CHR 0xFE]"

definition lower_char :: "char \<Rightarrow> char" where
  "lower_char c = (case map_of (zip upper_chars lower_chars) c of Some l \<Rightarrow> l | None \<Rightarrow> c)"

definition py_lower :: "string \<Rightarrow> string" where
  "py_lower s = map lower_char s"

text \<open>\<open>s.startswith(p)\<close>, \<open>s.endswith(p)\<close> and \<open>p in s\<close> on strings.\<close>

fun startswith :: "string \<Rightarrow> string \<Rightarrow> bool" where
  "startswith s [] = True"
| "startswith [] (p # ps) = False"
| "startswith (c # cs) (p # ps) = (c = p \<and> startswith cs ps)"

definition endswith :: "string \<Rightarrow> string \<Rightarrow> bool" where
  "endswith s p = startswith (rev s) (rev p)"

fun str_contains :: "string \<Rightarrow> string \<Rightarrow> bool" where
  "str_contains p [] = (p = [])"
| "str_contains p (c # cs) = (startswith (c # cs) p \<or> str_contains p cs)"

subsection \<open>\<open>int(s, 16)\<close>\<close>

text \<open>
  The builtin on a \<open>str\<close>: whitespace around the literal, a sign, the prefix \<open>0x\<close> or
  \<open>0X\<close>, then hexadecimal digits with single underscores between them. \<open>None\<close> stands
  for \<open>ValueError\<close>. Its whitespace is that of C (tab to carriage return, space) and, past
  ASCII, the two Latin-1 spaces.
\<close>

definition int_space :: "char \<Rightarrow> bool" where
  "int_space c = (c \<in> set [CHR 0x09, CHR 0x0A, CHR 0x0B, CHR 0x0C, CHR 0x0D, CHR 0x20,
                             CHR 0x85, CHR 0xA0])"

definition hex_digit :: "char \<Rightarrow> nat option" where
  "hex_digit c = map_of (zip ''0123456789abcdef'' [0 ..< 16] @ zip ''ABCDEF'' [10 ..< 16]) c"

text \<open>
  The digit loop: \<open>prev\<close> is the character before \<open>c\<close>, \<open>acc\<close> the value so far. It stops
  at the first character that is neither a digit nor an underscore and returns the value
  with the rest of the text; two underscores in a row and an underscore at the end of the
  digits are errors.
\<close>

fun hex_digits :: "char \<Rightarrow> string \<Rightarrow> nat \<Rightarrow> (nat \<times> string) option" where
  "hex_digits prev [] acc = (if prev = CHR ''_'' then None else Some (acc, []))"
| "hex_digits prev (c # cs) acc =
     (if c = CHR ''_'' then (if prev = CHR ''_'' then None else hex_digits c cs acc)
      else (case hex_digit c of
              Some d \<Rightarrow> hex_digits c cs (16 * acc + d)
            | None \<Rightarrow> (if prev = CHR ''_'' then None else Some (acc, c # cs))))"

definition strip_sign :: "string \<Rightarrow> int \<times> string" where
  "strip_sign s = (case s of
       c # cs \<Rightarrow> (if c = CHR ''+'' then (1, cs) else if c = CHR ''-'' then (-1, cs) else (1, s))
     | [] \<Rightarrow> (1, s))"

definition strip_prefix16 :: "string \<Rightarrow> string" where
  "strip_prefix16 s = (case s of
       z # x # cs \<Rightarrow>
         (if z = CHR ''0'' \<and> (x = CHR ''x'' \<or> x = CHR ''X'')
          then (case cs of u # ds \<Rightarrow> (if u = CHR ''_'' then ds else cs) | [] \<Rightarrow> cs)
          else s)
     | _ \<Rightarrow> s)"

definition int_base16 :: "string \<Rightarrow> int option" where
  "int_base16 s =
     (let (sign, body) = strip_sign (dropWhile int_space s);
          digits = strip_prefix16 body
      in case digits of
           [] \<Rightarrow> None
         | c # cs \<Rightarrow>
             (if hex_digit c = None then None
              else (case hex_digits (CHR 0x00) digits 0 of
                      None \<Rightarrow> None
                    | Some (v, rest) \<Rightarrow>
                        (if dropWhile int_space rest = [] then Some (sign * int v) else None))))"

subsection \<open>Floats\<close>

text \<open>
  A Python float is a finite value, an infinity or NaN. A finite float is kept as the real
  number it denotes: every double is one, and the script only compares floats. The
  comparisons are Python's: each one is false as soon as an operand is NaN.
\<close>

datatype pyfloat = Fin real | PosInf | NegInf | NaN

fun fl_gt :: "pyfloat \<Rightarrow> pyfloat \<Rightarrow> bool" where
  "fl_gt NaN y = False"
| "fl_gt x NaN = False"
| "fl_gt (Fin a) (Fin b) = (a > b)"
| "fl_gt (Fin a) PosInf = False"
| "fl_gt (Fin a) NegInf = True"
| "fl_gt PosInf PosInf = False"
| "fl_gt PosInf y = True"
| "fl_gt NegInf y = False"

text \<open>\<open>x >= n\<close> and \<open>x < n\<close> for a float \<open>x\<close> and an int \<open>n\<close>.\<close>

fun fl_ge_int :: "pyfloat \<Rightarrow> int \<Rightarrow> bool" where
  "fl_ge_int (Fin a) n = (a \<ge> real_of_int n)"
| "fl_ge_int PosInf n = True"
| "fl_ge_int NegInf n = False"
| "fl_ge_int NaN n = False"

fun fl_lt_int :: "pyfloat \<Rightarrow> int \<Rightarrow> bool" where
  "fl_lt_int (Fin a) n = (a < real_of_int n)"
| "fl_lt_int PosInf n = False"
| "fl_lt_int NegInf n = True"
| "fl_lt_int NaN n = False"

text \<open>
  \<open>max(m # xs)\<close>: the first element, replaced by each later element that is greater
  than the maximum so far.
\<close>

fun max_from :: "pyfloat \<Rightarrow> pyfloat list \<Rightarrow> pyfloat" where
  "max_from m [] = m"
| "max_from m (x # xs) = max_from (if fl_gt x m then x else m) xs"

subsection \<open>Decoded JSON\<close>

text \<open>
  What \<open>response.json()\<close> returns. A dict is an association list in which the first pair
  of a key is its entry.
\<close>

datatype json =
    JNone
  | JBool bool
  | JInt int
  | JFloat pyfloat
  | JStr string
  | JList "json list"
  | JDict "(string \<times> json) list"

text \<open>The exceptions that leave \<open>get_cpu_package_temp_from_ohm\<close> uncaught.\<close>

datatype py_error = AttributeError | TypeError

text \<open>\<open>bool(v)\<close>\<close>

fun truthy :: "json \<Rightarrow> bool" where
  "truthy JNone = False"
| "truthy (JBool b) = b"
| "truthy (JInt i) = (i \<noteq> 0)"
| "truthy (JFloat f) = (f \<noteq> Fin 0)"
| "truthy (JStr s) = (s \<noteq> [])"
| "truthy (JList xs) = (xs \<noteq> [])"
| "truthy (JDict kvs) = (kvs \<noteq> [])"

fun is_list :: "json \<Rightarrow> bool" where
  "is_list (JList xs) = True"
| "is_list v = False"

text \<open>\<open>v.get(k, d)\<close>: only a dict has the method.\<close>

fun dict_get :: "json \<Rightarrow> string \<Rightarrow> json \<Rightarrow> py_error + json" where
  "dict_get (JDict kvs) k d = Inr (case map_of kvs k of Some v \<Rightarrow> v | None \<Rightarrow> d)"
| "dict_get v k d = Inl AttributeError"

text \<open>The entry of key \<open>k\<close> in a dict: \<open>k in v\<close> is \<open>dict_lookup v k \<noteq> None\<close>, \<open>v[k]\<close> its value.\<close>

fun dict_lookup :: "json \<Rightarrow> string \<Rightarrow> json option" where
  "dict_lookup (JDict kvs) k = map_of kvs k"
| "dict_lookup v k = None"

text \<open>
  \<open>for x in v\<close>: the elements of a list, the characters of a str, the keys of a dict; any
  other value is not iterable.
\<close>

fun py_iter :: "json \<Rightarrow> py_error + json list" where
  "py_iter (JList xs) = Inr xs"
| "py_iter (JStr s) = Inr (map (\<lambda>c. JStr [c]) s)"
| "py_iter (JDict kvs) = Inr (map JStr (remdups (map fst kvs)))"
| "py_iter v = Inl TypeError"

section \<open>get_cpu_package_temp_from_ohm\<close>

text \<open>
  The outcome of \<open>requests.get\<close>, \<open>raise_for_status\<close> and \<open>response.json()\<close>: one of the
  two exceptions the function catches, or the decoded document.
\<close>

datatype ohm_response = RequestException | JSONValueError | Document json

text \<open>
  The loop over the sensors of one \<open>Temperatures\<close> component. \<open>float_of\<close> is the builtin
  \<open>float\<close> (\<open>None\<close> for \<open>ValueError\<close>). An empty \<open>split()\<close> raises \<open>IndexError\<close> and an
  unparsable text \<open>ValueError\<close>: both are caught and the loop goes on. A \<open>Value\<close> that is
  not a str has no \<open>split\<close>: \<open>AttributeError\<close> is not caught. The first value appended
  ends the loop (\<open>break\<close>).
\<close>

fun scan_sensors ::
  "(string \<Rightarrow> pyfloat option) \<Rightarrow> json list \<Rightarrow> pyfloat list \<Rightarrow> py_error + pyfloat list" where
  "scan_sensors float_of [] package_temps = Inr package_temps"
| "scan_sensors float_of (temp_sensor # rest) package_temps =
     (case dict_get temp_sensor ''Text'' (JStr []) of
        Inl e \<Rightarrow> Inl e
      | Inr text \<Rightarrow>
          (if text = JStr ''CPU Package'' \<and> dict_lookup temp_sensor ''Value'' \<noteq> None
           then (case dict_lookup temp_sensor ''Value'' of
                   Some (JStr v) \<Rightarrow>
                     (case py_split v of
                        [] \<Rightarrow> scan_sensors float_of rest package_temps
                      | temp_str # _ \<Rightarrow>
                          (case float_of temp_str of
                             None \<Rightarrow> scan_sensors float_of rest package_temps
                           | Some temp_val \<Rightarrow> Inr (package_temps @ [temp_val])))
                 | _ \<Rightarrow> Inl AttributeError)
           else scan_sensors float_of rest package_temps))"

text \<open>The loop over the components of one hardware item.\<close>

fun scan_components ::
  "(string \<Rightarrow> pyfloat option) \<Rightarrow> json list \<Rightarrow> pyfloat list \<Rightarrow> py_error + pyfloat list" where
  "scan_components float_of [] package_temps = Inr package_temps"
| "scan_components float_of (component # rest) package_temps =
     (case dict_get component ''Text'' (JStr []) of
        Inl e \<Rightarrow> Inl e
      | Inr text \<Rightarrow>
          (if text = JStr ''Temperatures''
           then (case dict_get component ''Children'' (JList []) of
                   Inl e \<Rightarrow> Inl e
                 | Inr children \<Rightarrow>
                     (case py_iter children of
                        Inl e \<Rightarrow> Inl e
                      | Inr sensors \<Rightarrow>
                          (case scan_sensors float_of sensors package_temps of
                             Inl e \<Rightarrow> Inl e
                           | Inr temps \<Rightarrow> scan_components float_of rest temps)))
           else scan_components float_of rest package_temps))"

text \<open>
  The test that sets \<open>is_cpu\<close>. \<open>lower\<close> and \<open>endswith\<close> are methods of str only; the
  \<open>ImageURL\<close> is read only when the three words are not in the text.
\<close>

definition is_cpu_item :: "json \<Rightarrow> py_error + bool" where
  "is_cpu_item hardware_item =
     (case dict_get hardware_item ''Text'' (JStr []) of
        Inl e \<Rightarrow> Inl e
      | Inr (JStr text) \<Rightarrow>
          (let hardware_text_lower = py_lower text in
           if str_contains ''cpu'' hardware_text_lower \<or>
              str_contains ''intel'' hardware_text_lower \<or>
              str_contains ''amd'' hardware_text_lower
           then Inr True
           else (case dict_get hardware_item ''ImageURL'' (JStr []) of
                   Inl e \<Rightarrow> Inl e
                 | Inr (JStr url) \<Rightarrow> Inr (endswith url ''cpu.png'')
                 | Inr _ \<Rightarrow> Inl AttributeError))
      | Inr _ \<Rightarrow> Inl AttributeError)"

text \<open>The loop over \<open>hardware_list\<close>.\<close>

fun scan_hardware ::
  "(string \<Rightarrow> pyfloat option) \<Rightarrow> json list \<Rightarrow> pyfloat list \<Rightarrow> py_error + pyfloat list" where
  "scan_hardware float_of [] package_temps = Inr package_temps"
| "scan_hardware float_of (hardware_item # rest) package_temps =
     (case is_cpu_item hardware_item of
        Inl e \<Rightarrow> Inl e
      | Inr is_cpu \<Rightarrow>
          (if is_cpu
           then (case dict_get hardware_item ''Children'' (JList []) of
                   Inl e \<Rightarrow> Inl e
                 | Inr children \<Rightarrow>
                     (case py_iter children of
                        Inl e \<Rightarrow> Inl e
                      | Inr components \<Rightarrow>
                          (case scan_components float_of components package_temps of
                             Inl e \<Rightarrow> Inl e
                           | Inr temps \<Rightarrow> scan_hardware float_of rest temps)))
           else scan_hardware float_of rest package_temps))"

text \<open>
  The function: \<open>Inl\<close> is an exception it lets through, \<open>Inr None\<close> the return value
  \<open>None\<close>, \<open>Inr (Some t)\<close> the temperature it returns. The last branch of each of the
  two distinctions on a list is never taken: the test before it leaves a list, and at
  the top a list that is not empty.
\<close>

definition get_cpu_package_temp_from_ohm ::
  "(string \<Rightarrow> pyfloat option) \<Rightarrow> ohm_response \<Rightarrow> py_error + pyfloat option" where
  "get_cpu_package_temp_from_ohm float_of response =
     (case response of
        RequestException \<Rightarrow> Inr None
      | JSONValueError \<Rightarrow> Inr None
      | Document data \<Rightarrow>
          (case dict_get data ''Children'' JNone of
             Inl e \<Rightarrow> Inl e
           | Inr nodes \<Rightarrow>
               (if \<not> truthy nodes \<or> \<not> is_list nodes \<or> \<not> truthy nodes then Inr None
                else (case nodes of
                        JList (computer_node # _) \<Rightarrow>
                          (case dict_get computer_node ''Children'' JNone of
                             Inl e \<Rightarrow> Inl e
                           | Inr hardware \<Rightarrow>
                               (if \<not> truthy hardware \<or> \<not> is_list hardware then Inr None
                                else (case hardware of
                                        JList hardware_list \<Rightarrow>
                                          (case scan_hardware float_of hardware_list [] of
                                             Inl e \<Rightarrow> Inl e
                                           | Inr [] \<Rightarrow> Inr None
                                           | Inr (t # ts) \<Rightarrow> Inr (Some (max_from t ts)))
                                      | _ \<Rightarrow> Inr None)))
                      | _ \<Rightarrow> Inr None))))"

section \<open>Configuration\<close>

definition IDRAC_IP :: string where "IDRAC_IP = ''10.10.10.194''"
definition IDRAC_USER :: string where "IDRAC_USER = ''root''"
definition IDRAC_PASSWORD :: string where "IDRAC_PASSWORD = ''calvin''"

definition IPMITOOL_PATH :: string where
  "IPMITOOL_PATH = ''C:'' @ [CHR 0x5C] @ ''DFan'' @ [CHR 0x5C] @ ''ipmitool.exe''"

definition TEMP_LOW_THRESHOLD_NEW :: int where "TEMP_LOW_THRESHOLD_NEW = 60"
definition TEMP_AUTO_THRESHOLD_NEW :: int where "TEMP_AUTO_THRESHOLD_NEW = 70"

definition FAN_SPEED_LOW_HEX_NEW :: string where "FAN_SPEED_LOW_HEX_NEW = ''0x0A''"
definition FAN_SPEED_MEDIUM_HEX_NEW :: string where "FAN_SPEED_MEDIUM_HEX_NEW = ''0x32''"

definition DELL_DISABLE_AUTO_FAN_CMD_ARGS :: "string list" where
  "DELL_DISABLE_AUTO_FAN_CMD_ARGS = [''raw'', ''0x30'', ''0x30'', ''0x01'', ''0x00'']"

definition DELL_ENABLE_AUTO_FAN_CMD_ARGS :: "string list" where
  "DELL_ENABLE_AUTO_FAN_CMD_ARGS = [''raw'', ''0x30'', ''0x30'', ''0x01'', ''0x01'']"

definition DELL_SET_FAN_SPEED_PREFIX_CMD_ARGS :: "string list" where
  "DELL_SET_FAN_SPEED_PREFIX_CMD_ARGS = [''raw'', ''0x30'', ''0x30'', ''0x02'', ''0xff'']"

section \<open>run_ipmi_command\<close>

text \<open>
  How one call of \<open>subprocess.run\<close> ends: the process exits with a return code, its
  standard output and its standard error, or the call raises \<open>TimeoutExpired\<close>,
  \<open>FileNotFoundError\<close> or another exception. With \<open>check=True\<close> a return code other than
  0 is a \<open>CalledProcessError\<close>.
\<close>

datatype process_outcome =
    Exited int string string
  | TimeoutExpired
  | FileNotFoundError
  | OtherException

text \<open>The values \<open>run_ipmi_command\<close> returns: a str, \<open>True\<close> or \<open>False\<close>, or \<open>None\<close>.\<close>

datatype py_ret = RStr string | RBool bool | RNone

fun ret_truthy :: "py_ret \<Rightarrow> bool" where
  "ret_truthy (RStr s) = (s \<noteq> [])"
| "ret_truthy (RBool b) = b"
| "ret_truthy RNone = False"

text \<open>
  The state of the script: the global \<open>idrac_fan_mode_is_manual\<close> (\<open>None\<close> unknown,
  \<open>Some False\<close> automatic, \<open>Some True\<close> manual) and the command line of every
  \<open>subprocess.run\<close> call made so far, oldest first.
\<close>

record script_state =
  idrac_fan_mode_is_manual :: "bool option"
  ipmi_calls :: "string list list"

text \<open>The environment gives the outcome of the n-th call of \<open>subprocess.run\<close>, from 0.\<close>

type_synonym ipmi_env = "nat \<Rightarrow> process_outcome"

definition base_cmd :: "string list" where
  "base_cmd = [IPMITOOL_PATH, ''-I'', ''lanplus'', ''-H'', IDRAC_IP,
               ''-U'', IDRAC_USER, ''-P'', IDRAC_PASSWORD]"

definition run_ipmi_command ::
  "ipmi_env \<Rightarrow> string list \<Rightarrow> bool \<Rightarrow> script_state \<Rightarrow> py_ret \<times> script_state" where
  "run_ipmi_command env command_args expect_output s =
     (let full_cmd = base_cmd @ command_args;
          s' = s\<lparr>ipmi_calls := ipmi_calls s @ [full_cmd]\<rparr>;
          failed = (if expect_output then RNone else RBool False)
      in case env (length (ipmi_calls s)) of
           Exited returncode stdout stderr \<Rightarrow>
             (if returncode = 0
              then (if expect_output then RStr (py_strip stdout) else RBool True, s')
              else (let stderr_output = (if stderr \<noteq> [] then py_strip stderr else [])
                    in if \<not> expect_output \<and> stderr_output = [] \<and> ''raw'' \<in> set full_cmd
                       then (RBool True, s')
                       else (failed, s')))
         | TimeoutExpired \<Rightarrow> (failed, s')
         | FileNotFoundError \<Rightarrow> (failed, s')
         | OtherException \<Rightarrow> (failed, s'))"

section \<open>The fan mode functions\<close>

definition set_idrac_fan_mode_auto :: "ipmi_env \<Rightarrow> script_state \<Rightarrow> bool \<times> script_state" where
  "set_idrac_fan_mode_auto env s =
     (let (r, s1) = run_ipmi_command env DELL_ENABLE_AUTO_FAN_CMD_ARGS False s
      in if ret_truthy r then (True, s1\<lparr>idrac_fan_mode_is_manual := Some False\<rparr>)
         else (False, s1\<lparr>idrac_fan_mode_is_manual := None\<rparr>))"

definition ensure_idrac_fan_mode_manual :: "ipmi_env \<Rightarrow> script_state \<Rightarrow> bool \<times> script_state" where
  "ensure_idrac_fan_mode_manual env s =
     (if idrac_fan_mode_is_manual s = Some True then (True, s)
      else (let (r, s1) = run_ipmi_command env DELL_DISABLE_AUTO_FAN_CMD_ARGS False s
            in if ret_truthy r then (True, s1\<lparr>idrac_fan_mode_is_manual := Some True\<rparr>)
               else (False, s1\<lparr>idrac_fan_mode_is_manual := None\<rparr>)))"

definition set_idrac_fan_speed_percentage ::
  "ipmi_env \<Rightarrow> string \<Rightarrow> script_state \<Rightarrow> bool \<times> script_state" where
  "set_idrac_fan_speed_percentage env speed_hex s =
     (case int_base16 speed_hex of
        None \<Rightarrow> (False, s)
      | Some speed_decimal \<Rightarrow>
          (let (manual, s1) = ensure_idrac_fan_mode_manual env s
           in if \<not> manual then (False, s1)
              else (let command_args = DELL_SET_FAN_SPEED_PREFIX_CMD_ARGS @ [speed_hex];
                        (r, s2) = run_ipmi_command env command_args False s1
                    in if ret_truthy r then (True, s2) else (False, s2))))"

section \<open>The control loop and the exit handler\<close>

text \<open>
  One pass of the \<open>while\<close> loop after the temperature is read (\<open>None\<close>: no reading).
\<close>

definition control_cycle :: "ipmi_env \<Rightarrow> pyfloat option \<Rightarrow> script_state \<Rightarrow> script_state" where
  "control_cycle env local_cpu_temp s =
     (case local_cpu_temp of
        Some t \<Rightarrow>
          (if fl_ge_int t TEMP_AUTO_THRESHOLD_NEW then snd (set_idrac_fan_mode_auto env s)
           else (let target_speed_hex =
                       (if fl_lt_int t TEMP_LOW_THRESHOLD_NEW then FAN_SPEED_LOW_HEX_NEW
                        else FAN_SPEED_MEDIUM_HEX_NEW)
                 in snd (set_idrac_fan_speed_percentage env target_speed_hex s)))
      | None \<Rightarrow> s)"

text \<open>
  The loop has no exit of its own: it ends when Ctrl+C is pressed or when an exception
  leaves \<open>get_cpu_package_temp_from_ohm\<close>. The list holds the responses of the polls
  made before Ctrl+C, which is taken to come between two passes.
\<close>

datatype loop_exit = KeyboardInterrupt | Uncaught py_error

fun polling_loop ::
  "(string \<Rightarrow> pyfloat option) \<Rightarrow> ipmi_env \<Rightarrow> ohm_response list \<Rightarrow> script_state
     \<Rightarrow> loop_exit \<times> script_state" where
  "polling_loop float_of env [] s = (KeyboardInterrupt, s)"
| "polling_loop float_of env (response # later) s =
     (case get_cpu_package_temp_from_ohm float_of response of
        Inl e \<Rightarrow> (Uncaught e, s)
      | Inr local_cpu_temp \<Rightarrow> polling_loop float_of env later (control_cycle env local_cpu_temp s))"

definition main_control_loop ::
  "(string \<Rightarrow> pyfloat option) \<Rightarrow> ipmi_env \<Rightarrow> ohm_response list \<Rightarrow> script_state
     \<Rightarrow> loop_exit \<times> script_state" where
  "main_control_loop float_of env responses s =
     polling_loop float_of env responses (s\<lparr>idrac_fan_mode_is_manual := None\<rparr>)"

text \<open>
  The \<open>finally\<close> block. An exception of \<open>get_cpu_package_temp_from_ohm\<close> leaves it
  before any command.
\<close>

definition finalization ::
  "(string \<Rightarrow> pyfloat option) \<Rightarrow> ipmi_env \<Rightarrow> ohm_response \<Rightarrow> script_state
     \<Rightarrow> py_error + script_state" where
  "finalization float_of env response s =
     (case get_cpu_package_temp_from_ohm float_of response of
        Inl e \<Rightarrow> Inl e
      | Inr (Some last_known_local_temp) \<Rightarrow>
          (if fl_ge_int last_known_local_temp TEMP_AUTO_THRESHOLD_NEW
           then Inr (snd (set_idrac_fan_mode_auto env s))
           else Inr s)
      | Inr None \<Rightarrow> Inr (snd (set_idrac_fan_mode_auto env s)))"

text \<open>
  The script from its start: the module sets the global to \<open>None\<close>, runs the loop, and
  whichever way the loop ends (both \<open>except\<close> clauses only print) runs the \<open>finally\<close>
  block with the response of one more poll.
\<close>

definition initial_state :: script_state where
  "initial_state = \<lparr>idrac_fan_mode_is_manual = None, ipmi_calls = []\<rparr>"

definition script_main ::
  "(string \<Rightarrow> pyfloat option) \<Rightarrow> ipmi_env \<Rightarrow> ohm_response list \<Rightarrow> ohm_response
     \<Rightarrow> py_error + script_state" where
  "script_main float_of env responses last_response =
     (let (exit, s) = main_control_loop float_of env responses initial_state
      in finalization float_of env last_response s)"

section \<open>Vocabulary of the properties\<close>

subsection \<open>The three command lines\<close>

text \<open>The \<open>full_cmd\<close> of the three calls of \<open>run_ipmi_command\<close> the script makes.\<close>

definition enable_auto_cmd :: "string list" where
  "enable_auto_cmd = base_cmd @ DELL_ENABLE_AUTO_FAN_CMD_ARGS"

definition enable_manual_cmd :: "string list" where
  "enable_manual_cmd = base_cmd @ DELL_DISABLE_AUTO_FAN_CMD_ARGS"

definition set_speed_cmd :: "string \<Rightarrow> string list" where
  "set_speed_cmd speed_hex = base_cmd @ DELL_SET_FAN_SPEED_PREFIX_CMD_ARGS @ [speed_hex]"

text \<open>
  The outcomes on which a raw command that expects no output succeeds: an exit status of
  0, or another status with a standard error that is empty once stripped (the ambiguous
  success).
\<close>

definition succeeds :: "process_outcome \<Rightarrow> bool" where
  "succeeds outcome =
     (case outcome of
        Exited returncode stdout stderr \<Rightarrow> returncode = 0 \<or> py_strip stderr = []
      | _ \<Rightarrow> False)"

subsection \<open>Telemetry snapshots\<close>


definition children :: "json \<Rightarrow> json list" where
  "children node = (case dict_lookup node ''Children'' of Some (JList xs) \<Rightarrow> xs | _ \<Rightarrow> [])"
















subsection \<open>Example inputs\<close>

text \<open>
  What \<open>float\<close> returns on the numbers of the examples below; the one other text they
  hold, \<open>N/A\<close>, is not a number for \<open>float\<close> either.
\<close>

definition example_float :: "string \<Rightarrow> pyfloat option" where
  "example_float = map_of [(''40.0'', Fin 40), (''50.0'', Fin 50), (''55.0'', Fin 55),
     (''65.0'', Fin 65), (''68.0'', Fin 68), (''72.0'', Fin 72), (''75.0'', Fin 75)]"

text \<open>Documents as OpenHardwareMonitor serves them; a value reads like \<open>45.0 \<degree>C\<close>.\<close>

definition sensor :: "string \<Rightarrow> string \<Rightarrow> json" where
  "sensor name number =
     JDict [(''Text'', JStr name), (''Value'', JStr (number @ '' '' @ [CHR 0xB0] @ ''C''))]"

definition cpu_node :: "json list \<Rightarrow> json" where
  "cpu_node sensors =
     JDict [(''Text'', JStr ''Intel Core i7-8700''),
            (''Children'',
               JList [JDict [(''Text'', JStr ''Clocks''), (''Children'', JList [])],
                      JDict [(''Text'', JStr ''Temperatures''), (''Children'', JList sensors)]]),
            (''ImageURL'', JStr ''images_icon/cpu.png'')]"


definition ohm_document :: "json list \<Rightarrow> json" where
  "ohm_document hardware_list =
     JDict [(''Text'', JStr ''Sensor''),
            (''Children'', JList [JDict [(''Text'', JStr ''DESKTOP''),
                                         (''Children'', JList hardware_list)]])]"

definition reading :: "string \<Rightarrow> ohm_response" where
  "reading number =
     Document (ohm_document
       [cpu_node [sensor ''CPU Core #1'' ''40.0'', sensor ''CPU Package'' number]])"



text \<open>
  A hot host whose package value arrives as the JSON number 80 and not as a text.
\<close>

definition numeric_value :: json where
  "numeric_value =
     ohm_document [cpu_node [JDict [(''Text'', JStr ''CPU Package''), (''Value'', JInt 80)]]]"

text \<open>Every ipmitool process exits with status 0 and prints nothing.\<close>

definition all_succeed :: ipmi_env where
  "all_succeed = (\<lambda>n. Exited 0 [] [])"

text \<open>Every ipmitool process exits with status 1 and an error message.\<close>

definition all_fail :: ipmi_env where
  "all_fail = (\<lambda>n. Exited 1 [] ''Unable to send RAW command'')"

definition manual_state :: script_state where
  "manual_state = \<lparr>idrac_fan_mode_is_manual = Some True, ipmi_calls = []\<rparr>"

section \<open>Auxiliary lemmas\<close>

subsection \<open>Commands and the tracked mode\<close>

lemma speed_constants:
  "int_base16 FAN_SPEED_MEDIUM_HEX_NEW = Some 50"
  "int_base16 FAN_SPEED_LOW_HEX_NEW = Some 10"
  by code_simp+

lemma raw_in_cmds:
  "''raw'' \<in> set (base_cmd @ DELL_ENABLE_AUTO_FAN_CMD_ARGS)"
  "''raw'' \<in> set (base_cmd @ DELL_DISABLE_AUTO_FAN_CMD_ARGS)"
  "''raw'' \<in> set (base_cmd @ DELL_SET_FAN_SPEED_PREFIX_CMD_ARGS @ [h])"
  by (simp_all add: DELL_ENABLE_AUTO_FAN_CMD_ARGS_def DELL_DISABLE_AUTO_FAN_CMD_ARGS_def
      DELL_SET_FAN_SPEED_PREFIX_CMD_ARGS_def)

lemma cmds_distinct:
  "set_speed_cmd h \<noteq> enable_manual_cmd"
  "enable_manual_cmd \<noteq> set_speed_cmd h"
  "enable_auto_cmd \<noteq> enable_manual_cmd"
  by (simp_all add: set_speed_cmd_def enable_manual_cmd_def enable_auto_cmd_def
      DELL_SET_FAN_SPEED_PREFIX_CMD_ARGS_def DELL_DISABLE_AUTO_FAN_CMD_ARGS_def
      DELL_ENABLE_AUTO_FAN_CMD_ARGS_def)

lemma run_ipmi_command_state:
  "snd (run_ipmi_command env args eo s) = s\<lparr>ipmi_calls := ipmi_calls s @ [base_cmd @ args]\<rparr>"
  by (simp add: run_ipmi_command_def Let_def split: process_outcome.split)

lemma set_idrac_fan_mode_auto_eq:
  "set_idrac_fan_mode_auto env s =
     (let ok = ret_truthy (fst (run_ipmi_command env DELL_ENABLE_AUTO_FAN_CMD_ARGS False s))
      in (ok, s\<lparr>idrac_fan_mode_is_manual := (if ok then Some False else None),
                ipmi_calls := ipmi_calls s @ [enable_auto_cmd]\<rparr>))"
  using run_ipmi_command_state [of env DELL_ENABLE_AUTO_FAN_CMD_ARGS False s]
  by (cases "run_ipmi_command env DELL_ENABLE_AUTO_FAN_CMD_ARGS False s")
    (simp add: set_idrac_fan_mode_auto_def enable_auto_cmd_def Let_def)

lemma ensure_idrac_fan_mode_manual_eq:
  "ensure_idrac_fan_mode_manual env s =
     (if idrac_fan_mode_is_manual s = Some True then (True, s)
      else (let ok = ret_truthy (fst (run_ipmi_command env DELL_DISABLE_AUTO_FAN_CMD_ARGS False s))
            in (ok, s\<lparr>idrac_fan_mode_is_manual := (if ok then Some True else None),
                      ipmi_calls := ipmi_calls s @ [enable_manual_cmd]\<rparr>)))"
  using run_ipmi_command_state [of env DELL_DISABLE_AUTO_FAN_CMD_ARGS False s]
  by (cases "run_ipmi_command env DELL_DISABLE_AUTO_FAN_CMD_ARGS False s")
    (simp add: ensure_idrac_fan_mode_manual_def enable_manual_cmd_def Let_def)

lemma set_speed_manual:
  assumes "idrac_fan_mode_is_manual s = Some True" and "int_base16 speed_hex \<noteq> None"
  shows "set_idrac_fan_speed_percentage env speed_hex s =
           (ret_truthy (fst (run_ipmi_command env
                               (DELL_SET_FAN_SPEED_PREFIX_CMD_ARGS @ [speed_hex]) False s)),
            s\<lparr>ipmi_calls := ipmi_calls s @ [set_speed_cmd speed_hex]\<rparr>)"
  using assms
    run_ipmi_command_state [of env "DELL_SET_FAN_SPEED_PREFIX_CMD_ARGS @ [speed_hex]" False s]
  by (auto simp add: set_idrac_fan_speed_percentage_def ensure_idrac_fan_mode_manual_def
      set_speed_cmd_def Let_def split: prod.split option.split)

lemma ambiguous_is_truthy:
  assumes "env (length (ipmi_calls s)) = Exited rc out err" and "rc \<noteq> 0"
    and "py_strip err = []" and "''raw'' \<in> set (base_cmd @ args)"
  shows "ret_truthy (fst (run_ipmi_command env args False s))"
  using assms by (simp add: run_ipmi_command_def Let_def)

lemma control_cycle_manual:
  assumes "idrac_fan_mode_is_manual s = Some True" and "\<not> fl_ge_int t 70"
  shows "control_cycle env (Some t) s =
           s\<lparr>ipmi_calls := ipmi_calls s @
                [set_speed_cmd (if fl_lt_int t 60 then FAN_SPEED_LOW_HEX_NEW
                                else FAN_SPEED_MEDIUM_HEX_NEW)]\<rparr>"
  using assms
  by (simp add: control_cycle_def TEMP_AUTO_THRESHOLD_NEW_def TEMP_LOW_THRESHOLD_NEW_def
      set_speed_manual speed_constants)

lemma polling_loop_manual:
  assumes "idrac_fan_mode_is_manual s = Some True"
    and "map (get_cpu_package_temp_from_ohm float_of) responses = map (\<lambda>t. Inr (Some t)) temps"
    and "\<forall>t \<in> set temps. \<not> fl_ge_int t 70"
  shows "polling_loop float_of env responses s =
           (KeyboardInterrupt,
            s\<lparr>ipmi_calls := ipmi_calls s @
                 map (\<lambda>t. set_speed_cmd (if fl_lt_int t 60 then FAN_SPEED_LOW_HEX_NEW
                                          else FAN_SPEED_MEDIUM_HEX_NEW)) temps\<rparr>)"
  using assms
proof (induction responses arbitrary: s temps)
  case Nil
  then show ?case by simp
next
  case (Cons r rs)
  then obtain t ts where ts: "temps = t # ts" by (cases temps) auto
  from Cons.prems ts have r: "get_cpu_package_temp_from_ohm float_of r = Inr (Some t)"
    and rs: "map (get_cpu_package_temp_from_ohm float_of) rs = map (\<lambda>t. Inr (Some t)) ts"
    and t: "\<not> fl_ge_int t 70" and tsb: "\<forall>t \<in> set ts. \<not> fl_ge_int t 70"
    by auto
  let ?s1 = "control_cycle env (Some t) s"
  have s1: "?s1 = s\<lparr>ipmi_calls := ipmi_calls s @
                [set_speed_cmd (if fl_lt_int t 60 then FAN_SPEED_LOW_HEX_NEW
                                else FAN_SPEED_MEDIUM_HEX_NEW)]\<rparr>"
    using Cons.prems(1) t by (rule control_cycle_manual)
  have m1: "idrac_fan_mode_is_manual ?s1 = Some True"
    using Cons.prems(1) by (simp add: s1)
  show ?case
    using Cons.IH [OF m1 rs tsb] r by (simp add: ts s1)
qed

lemma run_succeeds:
  assumes "''raw'' \<in> set (base_cmd @ args)"
  shows "ret_truthy (fst (run_ipmi_command env args False s)) =
           succeeds (env (length (ipmi_calls s)))"
  using assms
  by (cases "env (length (ipmi_calls s))")
    (auto simp add: run_ipmi_command_def succeeds_def Let_def py_strip_def)

lemma auto_succeeds:
  "set_idrac_fan_mode_auto env s =
     (let ok = succeeds (env (length (ipmi_calls s)))
      in (ok, s\<lparr>idrac_fan_mode_is_manual := (if ok then Some False else None),
                ipmi_calls := ipmi_calls s @ [enable_auto_cmd]\<rparr>))"
  by (simp only: set_idrac_fan_mode_auto_eq run_succeeds [OF raw_in_cmds(1)])

lemma ensure_succeeds:
  "ensure_idrac_fan_mode_manual env s =
     (if idrac_fan_mode_is_manual s = Some True then (True, s)
      else (let ok = succeeds (env (length (ipmi_calls s)))
            in (ok, s\<lparr>idrac_fan_mode_is_manual := (if ok then Some True else None),
                      ipmi_calls := ipmi_calls s @ [enable_manual_cmd]\<rparr>)))"
  by (simp only: ensure_idrac_fan_mode_manual_eq run_succeeds [OF raw_in_cmds(2)])

lemma speed_manual_succeeds:
  assumes "idrac_fan_mode_is_manual s = Some True" and "int_base16 speed_hex \<noteq> None"
  shows "set_idrac_fan_speed_percentage env speed_hex s =
           (succeeds (env (length (ipmi_calls s))),
            s\<lparr>ipmi_calls := ipmi_calls s @ [set_speed_cmd speed_hex]\<rparr>)"
  by (simp only: set_speed_manual [OF assms] run_succeeds [OF raw_in_cmds(3)])

lemma speed_succeeds:
  assumes "int_base16 speed_hex \<noteq> None" and "idrac_fan_mode_is_manual s \<noteq> Some True"
  shows "set_idrac_fan_speed_percentage env speed_hex s =
           (if succeeds (env (length (ipmi_calls s)))
            then (succeeds (env (Suc (length (ipmi_calls s)))),
                  s\<lparr>idrac_fan_mode_is_manual := Some True,
                    ipmi_calls := ipmi_calls s @ [enable_manual_cmd, set_speed_cmd speed_hex]\<rparr>)
            else (False, s\<lparr>idrac_fan_mode_is_manual := None,
                           ipmi_calls := ipmi_calls s @ [enable_manual_cmd]\<rparr>))"
proof (cases "succeeds (env (length (ipmi_calls s)))")
  case False
  then have "ensure_idrac_fan_mode_manual env s =
               (False, s\<lparr>idrac_fan_mode_is_manual := None,
                         ipmi_calls := ipmi_calls s @ [enable_manual_cmd]\<rparr>)"
    using assms(2) by (simp add: ensure_succeeds)
  then show ?thesis
    using False assms(1) by (auto simp add: set_idrac_fan_speed_percentage_def)
next
  case True
  let ?s1 = "s\<lparr>idrac_fan_mode_is_manual := Some True,
               ipmi_calls := ipmi_calls s @ [enable_manual_cmd]\<rparr>"
  have e: "ensure_idrac_fan_mode_manual env s = (True, ?s1)"
    using True assms(2) by (simp add: ensure_succeeds)
  have m: "idrac_fan_mode_is_manual ?s1 = Some True" by simp
  have "set_idrac_fan_speed_percentage env speed_hex s =
          set_idrac_fan_speed_percentage env speed_hex ?s1"
    using assms(1) e m
    by (auto simp add: set_idrac_fan_speed_percentage_def ensure_idrac_fan_mode_manual_def)
  then show ?thesis
    using True by (simp add: speed_manual_succeeds [OF m assms(1)])
qed

subsection \<open>The maximum\<close>






subsection \<open>The loops of the extractor on a well-formed snapshot\<close>








subsection \<open>First values and all values\<close>



section \<open>The claims\<close>

subsection \<open>C1: the three temperature bands\<close>

text \<open>
  C1. For every temperature reading \<open>t\<close> that is present, one pass of the loop takes exactly
  one action: \<open>t >= 70\<close> calls \<open>set_idrac_fan_mode_auto\<close>, \<open>60 <= t < 70\<close> calls
  \<open>set_idrac_fan_speed_percentage\<close> with the medium speed, \<open>t < 60\<close> calls it with the
  low speed. A reading of exactly 60 is in the medium band and one of exactly 70 in the
  automatic band; every reading gets one of the three actions and no reading is in two
  bands.
\<close>

theorem C1_decision_bands:
  "(fl_ge_int t 70 \<longrightarrow>
      control_cycle env (Some t) s = snd (set_idrac_fan_mode_auto env s)) \<and>
   (fl_ge_int t 60 \<and> fl_lt_int t 70 \<longrightarrow>
      control_cycle env (Some t) s =
        snd (set_idrac_fan_speed_percentage env FAN_SPEED_MEDIUM_HEX_NEW s)) \<and>
   (fl_lt_int t 60 \<longrightarrow>
      control_cycle env (Some t) s =
        snd (set_idrac_fan_speed_percentage env FAN_SPEED_LOW_HEX_NEW s)) \<and>
   control_cycle env (Some (Fin 60)) s =
     snd (set_idrac_fan_speed_percentage env FAN_SPEED_MEDIUM_HEX_NEW s) \<and>
   control_cycle env (Some (Fin 70)) s = snd (set_idrac_fan_mode_auto env s) \<and>
   (control_cycle env (Some t) s = snd (set_idrac_fan_mode_auto env s) \<or>
    control_cycle env (Some t) s =
      snd (set_idrac_fan_speed_percentage env FAN_SPEED_MEDIUM_HEX_NEW s) \<or>
    control_cycle env (Some t) s =
      snd (set_idrac_fan_speed_percentage env FAN_SPEED_LOW_HEX_NEW s)) \<and>
   \<not> (fl_ge_int t 70 \<and> fl_lt_int t 70) \<and> \<not> (fl_ge_int t 60 \<and> fl_lt_int t 60) \<and>
   \<not> (fl_ge_int t 70 \<and> fl_lt_int t 60)"
  by (cases t)
    (simp_all add: control_cycle_def TEMP_AUTO_THRESHOLD_NEW_def TEMP_LOW_THRESHOLD_NEW_def)

text \<open>The three bands at 75.0, 65.5 and 50.0 degrees.\<close>

theorem C1_decision_bands_witness:
  "fl_ge_int (Fin 75) 70 \<and>
   control_cycle all_succeed (Some (Fin 75)) initial_state =
     snd (set_idrac_fan_mode_auto all_succeed initial_state) \<and>
   fl_ge_int (Fin 65.5) 60 \<and> fl_lt_int (Fin 65.5) 70 \<and>
   control_cycle all_succeed (Some (Fin 65.5)) initial_state =
     snd (set_idrac_fan_speed_percentage all_succeed FAN_SPEED_MEDIUM_HEX_NEW initial_state) \<and>
   fl_lt_int (Fin 50) 60 \<and>
   control_cycle all_succeed (Some (Fin 50)) initial_state =
     snd (set_idrac_fan_speed_percentage all_succeed FAN_SPEED_LOW_HEX_NEW initial_state)"
  using C1_decision_bands [of "Fin 75" all_succeed initial_state]
    C1_decision_bands [of "Fin 65.5" all_succeed initial_state]
    C1_decision_bands [of "Fin 50" all_succeed initial_state]
  by simp

subsection \<open>C2: the manual mode is not enabled twice\<close>

text \<open>
  C2. Let the tracked state be manual and let every poll of a sequence give a reading in
  a manual band (below 60, or from 60 to below 70). Then the loop starts exactly one
  process per poll, the speed command of that reading, so the command that enables the
  manual mode is started on no poll. \<open>ensure_idrac_fan_mode_manual\<close> starts that command
  only when the tracked state is not manual.
\<close>

theorem C2_manual_idempotent:
  assumes "idrac_fan_mode_is_manual s = Some True"
    and "map (get_cpu_package_temp_from_ohm float_of) responses = map (\<lambda>t. Inr (Some t)) temps"
    and "\<forall>t \<in> set temps. fl_lt_int t 60 \<or> (fl_ge_int t 60 \<and> fl_lt_int t 70)"
  shows "polling_loop float_of env responses s =
           (KeyboardInterrupt,
            s\<lparr>ipmi_calls := ipmi_calls s @
                 map (\<lambda>t. set_speed_cmd (if fl_lt_int t 60 then FAN_SPEED_LOW_HEX_NEW
                                          else FAN_SPEED_MEDIUM_HEX_NEW)) temps\<rparr>) \<and>
         enable_manual_cmd \<notin> set (drop (length (ipmi_calls s))
                                    (ipmi_calls (snd (polling_loop float_of env responses s)))) \<and>
         ipmi_calls (snd (ensure_idrac_fan_mode_manual env s')) =
           (if idrac_fan_mode_is_manual s' = Some True then ipmi_calls s'
            else ipmi_calls s' @ [enable_manual_cmd])"
proof -
  have b: "\<forall>t \<in> set temps. \<not> fl_ge_int t 70"
  proof
    fix t assume "t \<in> set temps"
    with assms(3) have "fl_lt_int t 60 \<or> fl_lt_int t 70" by blast
    then show "\<not> fl_ge_int t 70" by (cases t) auto
  qed
  note p = polling_loop_manual [OF assms(1,2) b, of env]
  have "enable_manual_cmd \<notin> set (drop (length (ipmi_calls s))
                                    (ipmi_calls (snd (polling_loop float_of env responses s))))"
    by (auto simp add: p cmds_distinct)
  moreover have "ipmi_calls (snd (ensure_idrac_fan_mode_manual env s')) =
           (if idrac_fan_mode_is_manual s' = Some True then ipmi_calls s'
            else ipmi_calls s' @ [enable_manual_cmd])"
    by (simp add: ensure_idrac_fan_mode_manual_eq Let_def)
  ultimately show ?thesis using p by simp
qed

text \<open>
  Three polls at 50.0, 65.0 and 55.0 degrees from the manual state, every command
  failing: three speed commands and nothing else.
\<close>

theorem C2_manual_idempotent_witness:
  "idrac_fan_mode_is_manual manual_state = Some True \<and>
   map (get_cpu_package_temp_from_ohm example_float) (map reading [''50.0'', ''65.0'', ''55.0'']) =
     map (\<lambda>t. Inr (Some t)) [Fin 50, Fin 65, Fin 55] \<and>
   polling_loop example_float all_fail (map reading [''50.0'', ''65.0'', ''55.0'']) manual_state =
     (KeyboardInterrupt,
      \<lparr>idrac_fan_mode_is_manual = Some True,
        ipmi_calls = [set_speed_cmd FAN_SPEED_LOW_HEX_NEW, set_speed_cmd FAN_SPEED_MEDIUM_HEX_NEW,
                      set_speed_cmd FAN_SPEED_LOW_HEX_NEW]\<rparr>)"
proof -
  have m: "idrac_fan_mode_is_manual manual_state = Some True"
    by (simp add: manual_state_def)
  have r: "map (get_cpu_package_temp_from_ohm example_float)
             (map reading [''50.0'', ''65.0'', ''55.0'']) =
           map (\<lambda>t. Inr (Some t)) [Fin 50, Fin 65, Fin 55]"
    by code_simp
  have b: "\<forall>t \<in> set [Fin 50, Fin 65, Fin 55].
             fl_lt_int t 60 \<or> (fl_ge_int t 60 \<and> fl_lt_int t 70)"
    by simp
  show ?thesis
    using m r C2_manual_idempotent [OF m r b, of all_fail]
    by (simp add: manual_state_def)
qed

subsection \<open>C3: a failed command and the tracked mode\<close>

text \<open>
  The claim as stated fails for the speed command: from the manual state, a speed command
  that exits with status 1 and an error message makes \<open>run_ipmi_command\<close> return
  \<open>False\<close>, and the tracked state is still manual afterwards.
\<close>

theorem C3_counterexample:
  "\<not> succeeds (all_fail 0) \<and>
   fst (run_ipmi_command all_fail
          (DELL_SET_FAN_SPEED_PREFIX_CMD_ARGS @ [FAN_SPEED_MEDIUM_HEX_NEW]) False manual_state) =
     RBool False \<and>
   set_idrac_fan_speed_percentage all_fail FAN_SPEED_MEDIUM_HEX_NEW manual_state =
     (False, \<lparr>idrac_fan_mode_is_manual = Some True,
              ipmi_calls = [set_speed_cmd FAN_SPEED_MEDIUM_HEX_NEW]\<rparr>)"
  by (simp add: set_idrac_fan_speed_percentage_def speed_constants succeeds_def
      ensure_idrac_fan_mode_manual_def run_ipmi_command_def manual_state_def set_speed_cmd_def
      all_fail_def py_strip_def is_space_def whitespace_def)

text \<open>
  C3, amended. Whatever the tracked state was, with the outcome of the next process:
  when the command that enables the automatic mode fails, the tracked state is unknown
  afterwards; when the command that enables the manual mode fails, the tracked state is
  unknown afterwards, also at the end of \<open>set_idrac_fan_speed_percentage\<close>; when the
  speed command fails, \<open>set_idrac_fan_speed_percentage\<close> returns \<open>False\<close> and the
  tracked state is manual, whether it was manual before or has just become so.
\<close>

theorem C3_mode_command_failure:
  "(\<not> succeeds (env (length (ipmi_calls s))) \<longrightarrow>
      set_idrac_fan_mode_auto env s =
        (False, s\<lparr>idrac_fan_mode_is_manual := None,
                  ipmi_calls := ipmi_calls s @ [enable_auto_cmd]\<rparr>)) \<and>
   (idrac_fan_mode_is_manual s \<noteq> Some True \<and> \<not> succeeds (env (length (ipmi_calls s))) \<longrightarrow>
      ensure_idrac_fan_mode_manual env s =
        (False, s\<lparr>idrac_fan_mode_is_manual := None,
                  ipmi_calls := ipmi_calls s @ [enable_manual_cmd]\<rparr>) \<and>
      (int_base16 speed_hex \<noteq> None \<longrightarrow>
         idrac_fan_mode_is_manual (snd (set_idrac_fan_speed_percentage env speed_hex s)) = None)) \<and>
   (int_base16 speed_hex \<noteq> None \<and> idrac_fan_mode_is_manual s = Some True \<and>
    \<not> succeeds (env (length (ipmi_calls s))) \<longrightarrow>
      set_idrac_fan_speed_percentage env speed_hex s =
        (False, s\<lparr>ipmi_calls := ipmi_calls s @ [set_speed_cmd speed_hex]\<rparr>)) \<and>
   (int_base16 speed_hex \<noteq> None \<and> idrac_fan_mode_is_manual s \<noteq> Some True \<and>
    succeeds (env (length (ipmi_calls s))) \<and> \<not> succeeds (env (Suc (length (ipmi_calls s)))) \<longrightarrow>
      set_idrac_fan_speed_percentage env speed_hex s =
        (False, s\<lparr>idrac_fan_mode_is_manual := Some True,
                  ipmi_calls := ipmi_calls s @ [enable_manual_cmd, set_speed_cmd speed_hex]\<rparr>))"
proof (intro conjI impI)
  assume "\<not> succeeds (env (length (ipmi_calls s)))"
  then show "set_idrac_fan_mode_auto env s =
        (False, s\<lparr>idrac_fan_mode_is_manual := None,
                  ipmi_calls := ipmi_calls s @ [enable_auto_cmd]\<rparr>)"
    by (simp add: auto_succeeds)
next
  assume a: "idrac_fan_mode_is_manual s \<noteq> Some True \<and> \<not> succeeds (env (length (ipmi_calls s)))"
  then show "ensure_idrac_fan_mode_manual env s =
        (False, s\<lparr>idrac_fan_mode_is_manual := None,
                  ipmi_calls := ipmi_calls s @ [enable_manual_cmd]\<rparr>)"
    by (simp add: ensure_succeeds)
  assume "int_base16 speed_hex \<noteq> None"
  with a show
    "idrac_fan_mode_is_manual (snd (set_idrac_fan_speed_percentage env speed_hex s)) = None"
    by (simp add: speed_succeeds)
next
  assume "int_base16 speed_hex \<noteq> None \<and> idrac_fan_mode_is_manual s = Some True \<and>
    \<not> succeeds (env (length (ipmi_calls s)))"
  then show "set_idrac_fan_speed_percentage env speed_hex s =
        (False, s\<lparr>ipmi_calls := ipmi_calls s @ [set_speed_cmd speed_hex]\<rparr>)"
    by (simp add: speed_manual_succeeds)
next
  assume "int_base16 speed_hex \<noteq> None \<and> idrac_fan_mode_is_manual s \<noteq> Some True \<and>
    succeeds (env (length (ipmi_calls s))) \<and> \<not> succeeds (env (Suc (length (ipmi_calls s))))"
  then show "set_idrac_fan_speed_percentage env speed_hex s =
        (False, s\<lparr>idrac_fan_mode_is_manual := Some True,
                  ipmi_calls := ipmi_calls s @ [enable_manual_cmd, set_speed_cmd speed_hex]\<rparr>)"
    by (simp add: speed_succeeds)
qed

text \<open>
  With every command failing, the automatic mode command from the manual state, the
  manual mode command from the initial state and the speed command from the manual
  state; and the speed command failing after the manual mode command has succeeded.
\<close>

theorem C3_mode_command_failure_witness:
  "\<not> succeeds (all_fail 0) \<and>
   set_idrac_fan_mode_auto all_fail manual_state =
     (False, \<lparr>idrac_fan_mode_is_manual = None, ipmi_calls = [enable_auto_cmd]\<rparr>) \<and>
   ensure_idrac_fan_mode_manual all_fail initial_state =
     (False, \<lparr>idrac_fan_mode_is_manual = None, ipmi_calls = [enable_manual_cmd]\<rparr>) \<and>
   idrac_fan_mode_is_manual
     (snd (set_idrac_fan_speed_percentage all_fail FAN_SPEED_LOW_HEX_NEW initial_state)) = None \<and>
   set_idrac_fan_speed_percentage all_fail FAN_SPEED_LOW_HEX_NEW manual_state =
     (False, \<lparr>idrac_fan_mode_is_manual = Some True,
              ipmi_calls = [set_speed_cmd FAN_SPEED_LOW_HEX_NEW]\<rparr>) \<and>
   set_idrac_fan_speed_percentage (\<lambda>n. if n = 0 then Exited 0 [] [] else TimeoutExpired)
       FAN_SPEED_LOW_HEX_NEW initial_state =
     (False, \<lparr>idrac_fan_mode_is_manual = Some True,
              ipmi_calls = [enable_manual_cmd, set_speed_cmd FAN_SPEED_LOW_HEX_NEW]\<rparr>)"
proof -
  have f: "\<not> succeeds (all_fail n)" for n
    by (simp add: succeeds_def all_fail_def py_strip_def is_space_def whitespace_def)
  show ?thesis
    using f speed_constants(2)
      C3_mode_command_failure [of all_fail manual_state FAN_SPEED_LOW_HEX_NEW]
      C3_mode_command_failure [of all_fail initial_state FAN_SPEED_LOW_HEX_NEW]
      C3_mode_command_failure [of "\<lambda>n. if n = 0 then Exited 0 [] [] else TimeoutExpired"
        initial_state FAN_SPEED_LOW_HEX_NEW]
    by (simp add: manual_state_def initial_state_def succeeds_def)
qed

subsection \<open>C4: the exit handler\<close>

text \<open>
  When the function that reads the temperature returns, the exit handler does what the
  three cases say, from every state: a reading of 70 or more starts the automatic mode
  command, the manual state included; a reading below 70 starts no process and leaves
  the state as it is; the return value \<open>None\<close> starts the automatic mode command. The
  script runs the handler on the state the loop left, however the loop ended.
\<close>

lemma finalization_after_return:
  "(main_control_loop float_of env responses initial_state = (exit, s0) \<longrightarrow>
      script_main float_of env responses last_response =
        finalization float_of env last_response s0) \<and>
   (get_cpu_package_temp_from_ohm float_of last_response = Inr (Some t) \<and> fl_ge_int t 70 \<longrightarrow>
      finalization float_of env last_response s = Inr (snd (set_idrac_fan_mode_auto env s)) \<and>
      ipmi_calls (snd (set_idrac_fan_mode_auto env s)) = ipmi_calls s @ [enable_auto_cmd]) \<and>
   (get_cpu_package_temp_from_ohm float_of last_response = Inr (Some t) \<and> fl_lt_int t 70 \<longrightarrow>
      finalization float_of env last_response s = Inr s) \<and>
   (get_cpu_package_temp_from_ohm float_of last_response = Inr None \<longrightarrow>
      finalization float_of env last_response s = Inr (snd (set_idrac_fan_mode_auto env s)) \<and>
      ipmi_calls (snd (set_idrac_fan_mode_auto env s)) = ipmi_calls s @ [enable_auto_cmd])"
proof (intro conjI impI)
  assume "main_control_loop float_of env responses initial_state = (exit, s0)"
  then show "script_main float_of env responses last_response =
      finalization float_of env last_response s0"
    by (simp add: script_main_def)
next
  assume "get_cpu_package_temp_from_ohm float_of last_response = Inr (Some t) \<and> fl_ge_int t 70"
  then show "finalization float_of env last_response s =
      Inr (snd (set_idrac_fan_mode_auto env s))"
    by (simp add: finalization_def TEMP_AUTO_THRESHOLD_NEW_def)
next
  assume "get_cpu_package_temp_from_ohm float_of last_response = Inr (Some t) \<and> fl_lt_int t 70"
  moreover have "fl_lt_int t 70 \<Longrightarrow> \<not> fl_ge_int t 70" by (cases t) auto
  ultimately show "finalization float_of env last_response s = Inr s"
    by (simp add: finalization_def TEMP_AUTO_THRESHOLD_NEW_def)
next
  assume "get_cpu_package_temp_from_ohm float_of last_response = Inr None"
  then show "finalization float_of env last_response s =
      Inr (snd (set_idrac_fan_mode_auto env s))"
    by (simp add: finalization_def)
qed (simp_all add: set_idrac_fan_mode_auto_eq Let_def)

text \<open>
  The function raises on a package value that is a number, and on a document that is a
  JSON array.
\<close>

lemma extractor_raises:
  "get_cpu_package_temp_from_ohm example_float (Document numeric_value) = Inl AttributeError"
  "get_cpu_package_temp_from_ohm example_float (Document (JList [])) = Inl AttributeError"
  by code_simp+

text \<open>
  C4 does not hold of the script. The exit handler calls
  \<open>get_cpu_package_temp_from_ohm\<close> with nothing around the call, and that function
  catches only the exceptions of the request and of the JSON decoder: an
  \<open>AttributeError\<close> raised while it walks the document leaves the \<open>finally\<close> block
  before either call of \<open>set_idrac_fan_mode_auto\<close>. Take a host at 80 degrees whose
  package value is the JSON number 80. After one poll at 50.0 degrees the fans are in
  the manual mode at the low speed; the second poll raises and ends the loop; at exit
  the same document raises again, so the script ends with the exception and has started
  no automatic mode command, although no reading was available. A document that is a
  JSON array does the same from the manual state.
\<close>

theorem C4_exit_handler_raises:
  "main_control_loop example_float all_succeed [reading ''50.0'', Document numeric_value]
     initial_state =
     (Uncaught AttributeError,
      \<lparr>idrac_fan_mode_is_manual = Some True,
        ipmi_calls = [enable_manual_cmd, set_speed_cmd FAN_SPEED_LOW_HEX_NEW]\<rparr>) \<and>
   finalization example_float all_succeed (Document numeric_value)
     \<lparr>idrac_fan_mode_is_manual = Some True,
       ipmi_calls = [enable_manual_cmd, set_speed_cmd FAN_SPEED_LOW_HEX_NEW]\<rparr> =
     Inl AttributeError \<and>
   script_main example_float all_succeed [reading ''50.0'', Document numeric_value]
     (Document numeric_value) = Inl AttributeError \<and>
   finalization example_float all_succeed (Document (JList [])) manual_state =
     Inl AttributeError"
  by code_simp

subsection \<open>C5: a poll without a reading\<close>

text \<open>
  C5. A poll for which \<open>get_cpu_package_temp_from_ohm\<close> returns \<open>None\<close> changes nothing:
  the tracked state and the list of started processes are those of before, and the loop
  goes on with the next poll.
\<close>

theorem C5_no_reading:
  "get_cpu_package_temp_from_ohm float_of response = Inr None \<Longrightarrow>
     polling_loop float_of env (response # later) s = polling_loop float_of env later s \<and>
     control_cycle env None s = s"
  by (simp add: control_cycle_def)

text \<open>A request that fails, and a document whose only package value is not a number.\<close>

theorem C5_no_reading_witness:
  "get_cpu_package_temp_from_ohm example_float RequestException = Inr None \<and>
   polling_loop example_float all_succeed [RequestException] manual_state =
     (KeyboardInterrupt, manual_state) \<and>
   get_cpu_package_temp_from_ohm example_float (reading ''N/A'') = Inr None \<and>
   polling_loop example_float all_succeed [reading ''N/A''] manual_state =
     (KeyboardInterrupt, manual_state)"
proof -
  have a: "get_cpu_package_temp_from_ohm example_float RequestException = Inr None"
    by (simp add: get_cpu_package_temp_from_ohm_def)
  have b: "get_cpu_package_temp_from_ohm example_float (reading ''N/A'') = Inr None"
    by code_simp
  show ?thesis
    using a b C5_no_reading [OF a, of all_succeed "[]" manual_state]
      C5_no_reading [OF b, of all_succeed "[]" manual_state]
    by simp
qed

subsection \<open>C6: the outcome of a command\<close>

text \<open>
  The claim as stated fails on a standard error that holds only whitespace: it is not
  empty, yet \<open>run_ipmi_command\<close> strips it, returns \<open>True\<close> for a status of 1, and the
  tracked state becomes automatic.
\<close>

theorem C6_counterexample:
  "[CHR 0x0A] \<noteq> ([] :: string) \<and>
   run_ipmi_command (\<lambda>n. Exited 1 [] [CHR 0x0A]) DELL_ENABLE_AUTO_FAN_CMD_ARGS False initial_state =
     (RBool True, \<lparr>idrac_fan_mode_is_manual = None, ipmi_calls = [enable_auto_cmd]\<rparr>) \<and>
   set_idrac_fan_mode_auto (\<lambda>n. Exited 1 [] [CHR 0x0A]) initial_state =
     (True, \<lparr>idrac_fan_mode_is_manual = Some False, ipmi_calls = [enable_auto_cmd]\<rparr>)"
  by (simp add: set_idrac_fan_mode_auto_def run_ipmi_command_def initial_state_def
      enable_auto_cmd_def py_strip_def is_space_def whitespace_def
      DELL_ENABLE_AUTO_FAN_CMD_ARGS_def)

text \<open>
  C6, amended. With the outcome of the process that \<open>run_ipmi_command\<close> starts:
  an exit status of 0 is a success (\<open>True\<close>, or the standard output when output is
  expected); another exit status with a standard error that is not empty once stripped is
  a failure (\<open>False\<close>, or \<open>None\<close> when output is expected); another exit status with a
  standard error that is empty once stripped, on a raw command that expects no output,
  returns \<open>True\<close>, and the two mode functions then update the tracked state as on a
  success; an executable that is not found and a timeout are failures.
\<close>

theorem C6_outcome_classes:
  "(env (length (ipmi_calls s)) = Exited 0 out err \<longrightarrow>
      fst (run_ipmi_command env args expect_output s) =
        (if expect_output then RStr (py_strip out) else RBool True)) \<and>
   (env (length (ipmi_calls s)) = Exited rc out err \<and> rc \<noteq> 0 \<and> py_strip err \<noteq> [] \<longrightarrow>
      fst (run_ipmi_command env args expect_output s) =
        (if expect_output then RNone else RBool False)) \<and>
   (env (length (ipmi_calls s)) = Exited rc out err \<and> rc \<noteq> 0 \<and> py_strip err = [] \<and>
    ''raw'' \<in> set (base_cmd @ args) \<longrightarrow>
      fst (run_ipmi_command env args False s) = RBool True) \<and>
   (env (length (ipmi_calls s)) = Exited rc out err \<and> rc \<noteq> 0 \<and> py_strip err = [] \<longrightarrow>
      set_idrac_fan_mode_auto env s =
        (True, s\<lparr>idrac_fan_mode_is_manual := Some False,
                 ipmi_calls := ipmi_calls s @ [enable_auto_cmd]\<rparr>) \<and>
      (idrac_fan_mode_is_manual s \<noteq> Some True \<longrightarrow>
         ensure_idrac_fan_mode_manual env s =
           (True, s\<lparr>idrac_fan_mode_is_manual := Some True,
                    ipmi_calls := ipmi_calls s @ [enable_manual_cmd]\<rparr>))) \<and>
   (env (length (ipmi_calls s)) = FileNotFoundError \<or>
    env (length (ipmi_calls s)) = TimeoutExpired \<longrightarrow>
      fst (run_ipmi_command env args expect_output s) =
        (if expect_output then RNone else RBool False))"
proof (intro conjI impI)
  assume "env (length (ipmi_calls s)) = Exited 0 out err"
  then show "fst (run_ipmi_command env args expect_output s) =
      (if expect_output then RStr (py_strip out) else RBool True)"
    by (simp add: run_ipmi_command_def Let_def)
next
  assume "env (length (ipmi_calls s)) = Exited rc out err \<and> rc \<noteq> 0 \<and> py_strip err \<noteq> []"
  then show "fst (run_ipmi_command env args expect_output s) =
      (if expect_output then RNone else RBool False)"
    by (auto simp add: run_ipmi_command_def Let_def py_strip_def)
next
  assume "env (length (ipmi_calls s)) = Exited rc out err \<and> rc \<noteq> 0 \<and> py_strip err = [] \<and>
    ''raw'' \<in> set (base_cmd @ args)"
  then show "fst (run_ipmi_command env args False s) = RBool True"
    by (simp add: run_ipmi_command_def Let_def)
next
  assume a: "env (length (ipmi_calls s)) = Exited rc out err \<and> rc \<noteq> 0 \<and> py_strip err = []"
  show "set_idrac_fan_mode_auto env s =
      (True, s\<lparr>idrac_fan_mode_is_manual := Some False,
               ipmi_calls := ipmi_calls s @ [enable_auto_cmd]\<rparr>)"
  proof -
    from a raw_in_cmds(1) ambiguous_is_truthy [of env s rc out err DELL_ENABLE_AUTO_FAN_CMD_ARGS]
    have "ret_truthy (fst (run_ipmi_command env DELL_ENABLE_AUTO_FAN_CMD_ARGS False s))"
      by blast
    then show ?thesis by (simp add: set_idrac_fan_mode_auto_eq)
  qed
  assume "idrac_fan_mode_is_manual s \<noteq> Some True"
  moreover from a raw_in_cmds(2)
    ambiguous_is_truthy [of env s rc out err DELL_DISABLE_AUTO_FAN_CMD_ARGS]
  have "ret_truthy (fst (run_ipmi_command env DELL_DISABLE_AUTO_FAN_CMD_ARGS False s))"
    by blast
  ultimately show "ensure_idrac_fan_mode_manual env s =
         (True, s\<lparr>idrac_fan_mode_is_manual := Some True,
                  ipmi_calls := ipmi_calls s @ [enable_manual_cmd]\<rparr>)"
    by (simp add: ensure_idrac_fan_mode_manual_eq)
next
  assume "env (length (ipmi_calls s)) = FileNotFoundError \<or>
    env (length (ipmi_calls s)) = TimeoutExpired"
  then show "fst (run_ipmi_command env args expect_output s) =
      (if expect_output then RNone else RBool False)"
    by (auto simp add: run_ipmi_command_def Let_def)
qed

text \<open>
  The automatic mode command from the initial state with four outcomes: status 0;
  status 1 with a message; status 1 with an empty standard error; a timeout.
\<close>

theorem C6_outcome_classes_witness:
  "fst (run_ipmi_command all_succeed DELL_ENABLE_AUTO_FAN_CMD_ARGS False initial_state) =
     RBool True \<and>
   py_strip ''Unable to send RAW command'' \<noteq> [] \<and>
   fst (run_ipmi_command all_fail DELL_ENABLE_AUTO_FAN_CMD_ARGS False initial_state) =
     RBool False \<and>
   py_strip [] = [] \<and>
   fst (run_ipmi_command (\<lambda>n. Exited 1 [] []) DELL_ENABLE_AUTO_FAN_CMD_ARGS False initial_state) =
     RBool True \<and>
   set_idrac_fan_mode_auto (\<lambda>n. Exited 1 [] []) initial_state =
     (True, \<lparr>idrac_fan_mode_is_manual = Some False, ipmi_calls = [enable_auto_cmd]\<rparr>) \<and>
   ensure_idrac_fan_mode_manual (\<lambda>n. Exited 1 [] []) initial_state =
     (True, \<lparr>idrac_fan_mode_is_manual = Some True, ipmi_calls = [enable_manual_cmd]\<rparr>) \<and>
   fst (run_ipmi_command (\<lambda>n. TimeoutExpired) DELL_ENABLE_AUTO_FAN_CMD_ARGS False initial_state) =
     RBool False"
proof -
  have st: "py_strip ''Unable to send RAW command'' \<noteq> []" "py_strip [] = []"
    by (simp_all add: py_strip_def is_space_def whitespace_def)
  show ?thesis
    using st raw_in_cmds(1)
      C6_outcome_classes [of all_succeed initial_state "[]" "[]" DELL_ENABLE_AUTO_FAN_CMD_ARGS
        False 1]
      C6_outcome_classes [of all_fail initial_state "[]" "''Unable to send RAW command''"
        DELL_ENABLE_AUTO_FAN_CMD_ARGS False 1]
      C6_outcome_classes [of "\<lambda>n. Exited 1 [] []" initial_state "[]" "[]"
        DELL_ENABLE_AUTO_FAN_CMD_ARGS False 1]
      C6_outcome_classes [of "\<lambda>n. TimeoutExpired" initial_state "[]" "[]"
        DELL_ENABLE_AUTO_FAN_CMD_ARGS False 1]
    by (simp add: all_succeed_def all_fail_def initial_state_def)
qed

subsection \<open>C7: the manual mode comes before the speed\<close>

text \<open>
  C7. Let the tracked state not be manual and the speed be a hexadecimal literal. Then
  \<open>set_idrac_fan_speed_percentage\<close> first starts the command that enables the manual
  mode. When that command succeeds (status 0, or the ambiguous success) the speed
  command is started next; when it fails no other process is started, the function
  returns \<open>False\<close> and the tracked state is unknown.
\<close>

theorem C7_manual_first:
  assumes "idrac_fan_mode_is_manual s \<noteq> Some True" and "int_base16 speed_hex \<noteq> None"
  shows "(succeeds (env (length (ipmi_calls s))) \<longrightarrow>
            ipmi_calls (snd (set_idrac_fan_speed_percentage env speed_hex s)) =
              ipmi_calls s @ [enable_manual_cmd, set_speed_cmd speed_hex]) \<and>
         (\<not> succeeds (env (length (ipmi_calls s))) \<longrightarrow>
            set_idrac_fan_speed_percentage env speed_hex s =
              (False, s\<lparr>idrac_fan_mode_is_manual := None,
                        ipmi_calls := ipmi_calls s @ [enable_manual_cmd]\<rparr>)) \<and>
         ret_truthy (fst (run_ipmi_command env DELL_DISABLE_AUTO_FAN_CMD_ARGS False s)) =
           succeeds (env (length (ipmi_calls s)))"
  using speed_succeeds [OF assms(2,1), of env] run_succeeds [OF raw_in_cmds(2), of env s]
  by simp

text \<open>
  The medium speed from the initial state: every command succeeding, every command
  failing, and the manual mode command ending in the ambiguous success.
\<close>

theorem C7_manual_first_witness:
  "idrac_fan_mode_is_manual initial_state \<noteq> Some True \<and>
   int_base16 FAN_SPEED_MEDIUM_HEX_NEW \<noteq> None \<and>
   ipmi_calls (snd (set_idrac_fan_speed_percentage all_succeed FAN_SPEED_MEDIUM_HEX_NEW
                      initial_state)) =
     [enable_manual_cmd, set_speed_cmd FAN_SPEED_MEDIUM_HEX_NEW] \<and>
   set_idrac_fan_speed_percentage all_fail FAN_SPEED_MEDIUM_HEX_NEW initial_state =
     (False, \<lparr>idrac_fan_mode_is_manual = None, ipmi_calls = [enable_manual_cmd]\<rparr>) \<and>
   ipmi_calls (snd (set_idrac_fan_speed_percentage (\<lambda>n. Exited 1 [] []) FAN_SPEED_MEDIUM_HEX_NEW
                      initial_state)) =
     [enable_manual_cmd, set_speed_cmd FAN_SPEED_MEDIUM_HEX_NEW]"
proof -
  have i: "idrac_fan_mode_is_manual initial_state \<noteq> Some True"
    by (simp add: initial_state_def)
  have h: "int_base16 FAN_SPEED_MEDIUM_HEX_NEW \<noteq> None"
    by (simp add: speed_constants)
  have ok: "succeeds (all_succeed n)" and ko: "\<not> succeeds (all_fail n)"
    and amb: "succeeds (Exited 1 [] [])" for n
    by (simp_all add: succeeds_def all_succeed_def all_fail_def py_strip_def is_space_def
        whitespace_def)
  show ?thesis
    using i h ok ko amb C7_manual_first [OF i h, of all_succeed] C7_manual_first [OF i h, of all_fail]
      C7_manual_first [OF i h, of "\<lambda>n. Exited 1 [] []"]
    by (simp add: initial_state_def)
qed

subsection \<open>C8: the temperature that is extracted\<close>




subsection \<open>C9: four polls\<close>

text \<open>
  C9. Let every command succeed and let four polls read 50.0, 65.0, 72.0 and 68.0
  degrees. From the unknown state in which \<open>main_control_loop\<close> starts,
  the processes started are, in order: manual mode and low speed; medium speed;
  automatic mode; manual mode and medium speed. The manual mode command is started
  exactly twice, before the first speed command and on the poll after the automatic
  mode, and the tracked state ends manual.
\<close>

theorem C9_scenario:
  assumes "\<And>n. succeeds (env n)"
    and "map (get_cpu_package_temp_from_ohm float_of) responses =
           map (\<lambda>t. Inr (Some (Fin t))) [50.0, 65.0, 72.0, 68.0]"
  shows "main_control_loop float_of env responses s =
           (KeyboardInterrupt,
            s\<lparr>idrac_fan_mode_is_manual := Some True,
              ipmi_calls := ipmi_calls s @
                [enable_manual_cmd, set_speed_cmd FAN_SPEED_LOW_HEX_NEW,
                 set_speed_cmd FAN_SPEED_MEDIUM_HEX_NEW,
                 enable_auto_cmd,
                 enable_manual_cmd, set_speed_cmd FAN_SPEED_MEDIUM_HEX_NEW]\<rparr>) \<and>
         length (filter (\<lambda>c. c = enable_manual_cmd)
                   (drop (length (ipmi_calls s))
                      (ipmi_calls (snd (main_control_loop float_of env responses s))))) = 2"
proof -
  from assms(2) obtain r1 r2 r3 r4 where rs: "responses = [r1, r2, r3, r4]"
    and r: "get_cpu_package_temp_from_ohm float_of r1 = Inr (Some (Fin 50))"
      "get_cpu_package_temp_from_ohm float_of r2 = Inr (Some (Fin 65))"
      "get_cpu_package_temp_from_ohm float_of r3 = Inr (Some (Fin 72))"
      "get_cpu_package_temp_from_ohm float_of r4 = Inr (Some (Fin 68))"
    by (auto simp add: map_eq_Cons_conv)
  have low: "control_cycle env (Some (Fin 50)) x =
               snd (set_idrac_fan_speed_percentage env FAN_SPEED_LOW_HEX_NEW x)"
    and med: "control_cycle env (Some (Fin 65)) x =
                snd (set_idrac_fan_speed_percentage env FAN_SPEED_MEDIUM_HEX_NEW x)"
      "control_cycle env (Some (Fin 68)) x =
         snd (set_idrac_fan_speed_percentage env FAN_SPEED_MEDIUM_HEX_NEW x)"
    and aut: "control_cycle env (Some (Fin 72)) x = snd (set_idrac_fan_mode_auto env x)" for x
    by (simp_all add: control_cycle_def TEMP_AUTO_THRESHOLD_NEW_def TEMP_LOW_THRESHOLD_NEW_def)
  have run: "main_control_loop float_of env responses s =
           (KeyboardInterrupt,
            s\<lparr>idrac_fan_mode_is_manual := Some True,
              ipmi_calls := ipmi_calls s @
                [enable_manual_cmd, set_speed_cmd FAN_SPEED_LOW_HEX_NEW,
                 set_speed_cmd FAN_SPEED_MEDIUM_HEX_NEW,
                 enable_auto_cmd,
                 enable_manual_cmd, set_speed_cmd FAN_SPEED_MEDIUM_HEX_NEW]\<rparr>)"
    by (simp add: main_control_loop_def rs r low med aut speed_succeeds speed_manual_succeeds
        auto_succeeds assms(1) speed_constants)
  show ?thesis
    by (simp add: run cmds_distinct)
qed

text \<open>The four documents of the readings, every process exiting with status 0.\<close>

theorem C9_scenario_witness:
  "map (get_cpu_package_temp_from_ohm example_float)
     (map reading [''50.0'', ''65.0'', ''72.0'', ''68.0'']) =
     map (\<lambda>t. Inr (Some (Fin t))) [50.0, 65.0, 72.0, 68.0] \<and>
   main_control_loop example_float all_succeed
     (map reading [''50.0'', ''65.0'', ''72.0'', ''68.0'']) initial_state =
     (KeyboardInterrupt,
      \<lparr>idrac_fan_mode_is_manual = Some True,
        ipmi_calls = [enable_manual_cmd, set_speed_cmd FAN_SPEED_LOW_HEX_NEW,
                      set_speed_cmd FAN_SPEED_MEDIUM_HEX_NEW,
                      enable_auto_cmd,
                      enable_manual_cmd, set_speed_cmd FAN_SPEED_MEDIUM_HEX_NEW]\<rparr>)"
proof -
  have ok: "succeeds (all_succeed n)" for n
    by (simp add: succeeds_def all_succeed_def)
  have r: "map (get_cpu_package_temp_from_ohm example_float)
             (map reading [''50.0'', ''65.0'', ''72.0'', ''68.0'']) =
           map (\<lambda>t. Inr (Some (Fin t))) [50.0, 65.0, 72.0, 68.0]"
    by code_simp
  show ?thesis
    using r C9_scenario [OF ok r, where s = initial_state]
    by (simp add: initial_state_def)
qed

subsection \<open>C10: a speed that is not a hexadecimal literal\<close>

text \<open>
  C10. When \<open>int(speed_hex, 16)\<close> raises \<open>ValueError\<close>, \<open>set_idrac_fan_speed_percentage\<close>
  returns \<open>False\<close> with the state it was given: no process is started and the tracked
  state is unchanged.
\<close>

theorem C10_invalid_speed:
  "int_base16 speed_hex = None \<Longrightarrow> set_idrac_fan_speed_percentage env speed_hex s = (False, s)"
  by (simp add: set_idrac_fan_speed_percentage_def)

text \<open>The texts \<open>0xZZ\<close> and \<open>50%\<close>.\<close>

theorem C10_invalid_speed_witness:
  "int_base16 ''0xZZ'' = None \<and>
   set_idrac_fan_speed_percentage all_succeed ''0xZZ'' initial_state = (False, initial_state) \<and>
   int_base16 ''50%'' = None \<and>
   set_idrac_fan_speed_percentage all_succeed ''50%'' manual_state = (False, manual_state)"
proof -
  have a: "int_base16 ''0xZZ'' = None" by code_simp
  have b: "int_base16 ''50%'' = None" by code_simp
  show ?thesis
    using a b C10_invalid_speed [OF a, of all_succeed initial_state]
      C10_invalid_speed [OF b, of all_succeed manual_state]
    by simp
qed

end
